theory Spec2Isabelle
  imports Main "HOL-Library.Word"
begin

unbundle bit_operations_syntax

section \<open>Directory nodes of ClueFS (dir.go)\<close>

text \<open>
  The development embeds \<^verbatim>\<open>dir.go\<close>: the directory operations
  Open, Release, Lookup, ReadDirAll, Mkdir, Remove, Create and Symlink, and the
  error translator \<^verbatim>\<open>osErrorToFuseError\<close>.  Go strings are byte
  lists, a Go \<^verbatim>\<open>error\<close> interface value is a datatype of its dynamic
  types, a run-time panic is the outcome \<open>Panic\<close>, and every operation
  returns, next to its Go results, the list of events it caused: the trace
  records it emitted and the calls it made on the backing file system.
\<close>

subsection \<open>Error numbers and error values\<close>

text \<open>
  \<^verbatim>\<open>syscall.Errno\<close> is an unsigned machine word and
  \<^verbatim>\<open>fuse.Errno\<close> is declared from it, so the conversion
  \<^verbatim>\<open>fuse.Errno(errno)\<close> keeps the number.  \<^verbatim>\<open>ENOTSUP\<close> is 45 on
  Darwin and FreeBSD and 95 on Linux.
\<close>

type_synonym errno = nat

datatype goos = Darwin | FreeBSD | Linux

definition ENOENT :: errno where
  "ENOENT = 2"

definition EIO :: errno where
  "EIO = 5"

fun ENOTSUP :: "goos \<Rightarrow> errno" where
  "ENOTSUP Linux = 95"
| "ENOTSUP Darwin = 45"
| "ENOTSUP FreeBSD = 45"

text \<open>
  A value of the interface type \<^verbatim>\<open>error\<close>, by dynamic type:
  \<open>NilErr\<close> is \<^verbatim>\<open>nil\<close>; \<open>PathError op path err\<close> is a
  \<^verbatim>\<open>*os.PathError\<close> and \<open>LinkError op old new err\<close> a
  \<^verbatim>\<open>*os.LinkError\<close>, whose field \<^verbatim>\<open>Err\<close> is again an
  \<^verbatim>\<open>error\<close>; \<open>Errno e\<close> is a \<^verbatim>\<open>syscall.Errno\<close> value;
  \<open>ErrnoPtr e\<close> is a \<^verbatim>\<open>*syscall.Errno\<close> pointing to \<open>e\<close>;
  \<open>OtherErr msg\<close> is any other dynamic type (such as the result of
  \<^verbatim>\<open>errors.New\<close>).  Nil pointers of the two struct types are left out.
\<close>

datatype go_error =
    NilErr
  | PathError string string go_error
  | LinkError string string string go_error
  | Errno errno
  | ErrnoPtr errno
  | OtherErr string

datatype 'a outcome = Panic | Returns 'a

text \<open>The type assertion \<^verbatim>\<open>x.(syscall.Errno)\<close>, which panics on every
  other dynamic type (and on nil).\<close>

fun assert_Errno :: "go_error \<Rightarrow> errno outcome" where
  "assert_Errno (Errno e) = Returns e"
| "assert_Errno _ = Panic"

text \<open>
  \<^verbatim>\<open>osErrorToFuseError\<close>.  The result is an \<^verbatim>\<open>error\<close> that is nil
  (\<open>None\<close>) or a \<^verbatim>\<open>fuse.Errno\<close> (\<open>Some\<close>).  The third branch tests
  for the pointer type \<^verbatim>\<open>*syscall.Errno\<close> and then asserts the value type
  on the same \<^verbatim>\<open>err\<close>.
\<close>

definition osErrorToFuseError :: "go_error \<Rightarrow> errno option outcome" where
  "osErrorToFuseError err =
     (if err = NilErr then Returns None
      else (case err of
              PathError _ _ patherr_Err \<Rightarrow>
                (case assert_Errno patherr_Err of
                   Panic \<Rightarrow> Panic
                 | Returns errno \<Rightarrow> Returns (Some errno))
            | LinkError _ _ _ linkerr_Err \<Rightarrow>
                (case assert_Errno linkerr_Err of
                   Panic \<Rightarrow> Panic
                 | Returns errno \<Rightarrow> Returns (Some errno))
            | ErrnoPtr _ \<Rightarrow>
                (case assert_Errno err of
                   Panic \<Rightarrow> Panic
                 | Returns errno \<Rightarrow> Returns (Some errno))
            | _ \<Rightarrow> Returns (Some EIO)))"

subsection \<open>Strings and paths (Go standard library, Unix)\<close>

text \<open>\<^verbatim>\<open>strings.HasPrefix(s, prefix)\<close>.\<close>

definition HasPrefix :: "string \<Rightarrow> string \<Rightarrow> bool" where
  "HasPrefix s pre = (length s \<ge> length pre \<and> take (length pre) s = pre)"

text \<open>\<^verbatim>\<open>strings.Index(s, substr)\<close>: the index of the first occurrence,
  \<open>None\<close> for \<open>-1\<close>.\<close>

fun Index :: "string \<Rightarrow> string \<Rightarrow> nat option" where
  "Index [] substr = (if substr = [] then Some 0 else None)"
| "Index (c # cs) substr =
     (if HasPrefix (c # cs) substr then Some 0
      else map_option Suc (Index cs substr))"

text \<open>
  \<^verbatim>\<open>strings.Replace(s, old, new, 1)\<close>: \<open>s\<close> itself when \<open>old = new\<close>
  or \<open>old\<close> does not occur; otherwise the first occurrence of \<open>old\<close> is
  replaced (an empty \<open>old\<close> matches at the beginning of the string).
\<close>

definition Replace1 :: "string \<Rightarrow> string \<Rightarrow> string \<Rightarrow> string" where
  "Replace1 s old new =
     (if old = new then s
      else (case Index s old of
              None \<Rightarrow> s
            | Some j \<Rightarrow> take j s @ new @ drop (j + length old) s))"

text \<open>\<^verbatim>\<open>strings.Join(elems, sep)\<close>.\<close>

fun strings_Join :: "string list \<Rightarrow> string \<Rightarrow> string" where
  "strings_Join [] sep = []"
| "strings_Join [e] sep = e"
| "strings_Join (e # es) sep = e @ sep @ strings_Join es sep"

text \<open>\<^verbatim>\<open>filepath.IsAbs(path)\<close> on Unix.\<close>

definition IsAbs :: "string \<Rightarrow> bool" where
  "IsAbs p = HasPrefix p ''/''"

text \<open>
  \<^verbatim>\<open>filepath.Clean\<close>.  The output buffer is the list \<open>out\<close> (its
  length is the write index \<^verbatim>\<open>out.w\<close>); \<open>dotdot\<close> is the index where
  backtracking must stop.  \<open>backtrack_w\<close> is the inner loop of the
  \<^verbatim>\<open>..\<close> case, which moves the write index back to the last separator.
\<close>

fun backtrack_w :: "string \<Rightarrow> nat \<Rightarrow> nat \<Rightarrow> nat" where
  "backtrack_w buf dotdot w =
     (if w > dotdot \<and> buf ! w \<noteq> CHR ''/'' then backtrack_w buf dotdot (w - 1) else w)"

declare backtrack_w.simps [simp del]

definition backtrack :: "string \<Rightarrow> nat \<Rightarrow> string" where
  "backtrack out dotdot = take (backtrack_w out dotdot (length out - 1)) out"

definition ends_elem :: "string \<Rightarrow> bool" where
  "ends_elem rest = (case rest of [] \<Rightarrow> True | x # _ \<Rightarrow> x = CHR ''/'')"

function clean_loop :: "bool \<Rightarrow> string \<Rightarrow> string \<Rightarrow> nat \<Rightarrow> string" where
  "clean_loop rooted [] out dotdot = out"
| "clean_loop rooted (c # cs) out dotdot =
     (if c = CHR ''/'' then clean_loop rooted cs out dotdot
      else if c = CHR ''.'' \<and> ends_elem cs then clean_loop rooted cs out dotdot
      else if c = CHR ''.'' \<and> take 1 cs = ''.'' \<and> ends_elem (drop 1 cs) then
        (if length out > dotdot then
           clean_loop rooted (drop 1 cs) (backtrack out dotdot) dotdot
         else if \<not> rooted then
           (let out' = (if length out > 0 then out @ ''/'' else out) @ ''..''
            in clean_loop rooted (drop 1 cs) out' (length out'))
         else clean_loop rooted (drop 1 cs) out dotdot)
      else
        (let out' = (if (rooted \<and> length out \<noteq> 1) \<or> (\<not> rooted \<and> length out \<noteq> 0)
                     then out @ ''/'' else out)
         in clean_loop rooted (dropWhile (\<lambda>x. x \<noteq> CHR ''/'') cs)
              (out' @ c # takeWhile (\<lambda>x. x \<noteq> CHR ''/'') cs) dotdot))"
  by pat_completeness auto
termination
  by (relation "measure (\<lambda>(rooted, p, out, dotdot). length p)")
     (auto simp: length_dropWhile_le less_Suc_eq_le)

definition Clean :: "string \<Rightarrow> string" where
  "Clean p =
     (if p = [] then ''.''
      else (let rooted = (take 1 p = ''/'');
                out = (if rooted then clean_loop True (drop 1 p) ''/'' 1
                       else clean_loop False p [] 0)
            in if out = [] then ''.'' else out))"

text \<open>\<^verbatim>\<open>filepath.Join\<close>: the elements from the first non-empty one on are
  joined with the separator and cleaned; the result is empty when all are.\<close>

fun Join :: "string list \<Rightarrow> string" where
  "Join [] = []"
| "Join (e # es) =
     (if e \<noteq> [] then Clean (strings_Join (e # es) ''/'') else Join es)"

subsection \<open>Nodes, handles and directories\<close>

text \<open>
  \<^verbatim>\<open>ClueFS\<close>, \<^verbatim>\<open>Node\<close>, \<^verbatim>\<open>Handle\<close>, \<^verbatim>\<open>ProcessInfo\<close>
  and \<^verbatim>\<open>File\<close> are declared in other files of the program; the records
  hold the fields that \<^verbatim>\<open>dir.go\<close> reads and writes.
\<close>

record clueFS =
  mountDir :: string
  shadowDir :: string

record node =
  n_fs :: clueFS
  n_parent :: string
  n_name :: string
  n_path :: string

record handle =
  h_file :: "nat option"
  h_handleID :: nat

record processInfo =
  Uid :: "32 word"
  Gid :: "32 word"
  Pid :: "32 word"

record dir =
  d_node :: node
  d_handle :: handle
  d_procInfo :: processInfo

text \<open>Modelled from the spec: \<^verbatim>\<open>NewNode\<close> (not in dir.go).  A Node's path
  is always \<open>join(parentPath, name)\<close>.\<close>

definition NewNode :: "string \<Rightarrow> string \<Rightarrow> clueFS \<Rightarrow> node" where
  "NewNode parent name fs =
     \<lparr>n_fs = fs, n_parent = parent, n_name = name, n_path = Join [parent, name]\<rparr>"

text \<open>The zero values \<^verbatim>\<open>Handle{}\<close> and \<^verbatim>\<open>ProcessInfo{}\<close>.\<close>

definition zero_Handle :: handle where
  "zero_Handle = \<lparr>h_file = None, h_handleID = 0\<rparr>"

definition zero_ProcessInfo :: processInfo where
  "zero_ProcessInfo = \<lparr>Uid = 0, Gid = 0, Pid = 0\<rparr>"

definition NewDir :: "string \<Rightarrow> string \<Rightarrow> clueFS \<Rightarrow> dir" where
  "NewDir parent name fs =
     \<lparr>d_node = NewNode parent name fs, d_handle = zero_Handle,
      d_procInfo = zero_ProcessInfo\<rparr>"

text \<open>Modelled from the spec: \<^verbatim>\<open>Handle.isOpen\<close> (not in dir.go).  A handle
  is open exactly while it wraps a backing descriptor.\<close>

definition isOpen :: "handle \<Rightarrow> bool" where
  "isOpen h = (h_file h \<noteq> None)"

text \<open>Modelled from the spec: \<^verbatim>\<open>File\<close> and \<^verbatim>\<open>NewFile\<close> (not in
  dir.go).  A file is the sibling of a directory, a Node with a Handle, made
  with its handle closed.\<close>

record file_node =
  f_node :: node
  f_handle :: handle

definition NewFile :: "string \<Rightarrow> string \<Rightarrow> clueFS \<Rightarrow> file_node" where
  "NewFile parent name fs = \<lparr>f_node = NewNode parent name fs, f_handle = zero_Handle\<rparr>"

datatype fs_node = DirNode dir | FileNode file_node

subsection \<open>Requests, responses and trace records\<close>

text \<open>The fields of the \<^verbatim>\<open>fuse\<close> request types that dir.go reads.  Flags
  and modes are 32-bit words (\<^verbatim>\<open>fuse.OpenFlags\<close>, \<^verbatim>\<open>os.FileMode\<close>).\<close>

record header =
  hd_Uid :: "32 word"
  hd_Gid :: "32 word"
  hd_Pid :: "32 word"

record openRequest =
  open_Header :: header
  open_Flags :: "32 word"

record releaseRequest =
  ReleaseFlags :: "32 word"

record lookupRequest =
  lookup_Name :: string

record mkdirRequest =
  mkdir_Name :: string
  mkdir_Mode :: "32 word"

record removeRequest =
  remove_Name :: string

record createRequest =
  create_Name :: string
  create_Flags :: "32 word"
  create_Mode :: "32 word"

record symlinkRequest =
  NewName :: string
  Target :: string

text \<open>\<^verbatim>\<open>fuse.ReleaseFlush\<close> is the lowest bit of the release flags.\<close>

definition ReleaseFlush :: "32 word" where
  "ReleaseFlush = 1"

text \<open>
  Of \<^verbatim>\<open>syscall.Stat_t\<close> the inode and the mode; of \<^verbatim>\<open>fuse.Attr\<close>
  what Lookup reads: \<^verbatim>\<open>Attr.Inode\<close> and \<^verbatim>\<open>Attr.Mode.IsDir()\<close>.
  The response of Lookup holds the four fields that Lookup assigns, the two
  validity spans in nanoseconds.  A \<^verbatim>\<open>fuse.Dirent\<close> has an inode, a name
  and a kind.
\<close>

record stat_t =
  st_Ino :: nat
  st_Mode :: "32 word"

record attr =
  a_Inode :: nat
  a_IsDir :: bool

record lookupResponse =
  resp_Attr :: attr
  resp_Node :: nat
  resp_AttrValid :: nat
  resp_EntryValid :: nat

record dirent =
  Inode :: nat
  Name :: string
  Type :: nat

text \<open>
  One constructor for each \<^verbatim>\<open>New...Op\<close> call of dir.go, with the
  arguments of the call.  Go evaluates the arguments of a deferred call at the
  \<^verbatim>\<open>defer\<close> statement, so the directory flag of a Lookup or Symlink
  record is the value the variable has there.
\<close>

datatype trace_op =
    OpenOp openRequest string
  | ReleaseOp releaseRequest string
  | LookupOp lookupRequest string bool
  | ReadDirOp string processInfo
  | MkdirOp mkdirRequest string "32 word"
  | RemoveOp removeRequest string
  | CreateOp createRequest string
  | SymlinkOp symlinkRequest string string bool

text \<open>The calls dir.go makes on the backing file system and on its handle.\<close>

datatype backing_call =
    Sys_Lstat string
  | File_Readdirnames "nat option"
  | Os_Mkdir string "32 word"
  | Os_Remove string
  | Os_OpenFile string int "32 word"
  | Os_Lstat string
  | Os_Symlink string string
  | Handle_doOpen string int "32 word"
  | Handle_doSync handle
  | Handle_doClose handle

text \<open>Modelled from the spec: \<^verbatim>\<open>trace\<close> (not in dir.go).  The emitter
  produces one record for the operation it is called with: a call of
  \<^verbatim>\<open>trace\<close> is the event \<open>Trace\<close> of that record.\<close>

datatype event = Trace trace_op | Call backing_call

fun trace_records :: "event list \<Rightarrow> trace_op list" where
  "trace_records [] = []"
| "trace_records (Trace t # es) = t # trace_records es"
| "trace_records (Call c # es) = trace_records es"

fun backing_calls :: "event list \<Rightarrow> backing_call list" where
  "backing_calls [] = []"
| "backing_calls (Trace t # es) = backing_calls es"
| "backing_calls (Call c # es) = c # backing_calls es"

fun is_doClose :: "backing_call \<Rightarrow> bool" where
  "is_doClose (Handle_doClose h) = True"
| "is_doClose _ = False"

subsection \<open>The backing file system\<close>

text \<open>
  What the backing file system and the helpers declared outside dir.go answer
  is a parameter of every operation.  An \<^verbatim>\<open>error\<close> result is a
  \<open>go_error\<close>, \<open>NilErr\<close> for success.
  \<^item> \<open>sys_Lstat\<close>: \<^verbatim>\<open>syscall.Lstat\<close>, an error number or the stat.
  \<^item> \<open>readdirnames\<close>: \<^verbatim>\<open>(*os.File).Readdirnames(0)\<close> on a descriptor.
  \<^item> \<open>os_Mkdir\<close>, \<open>os_Remove\<close>, \<open>os_Symlink\<close>: the error of the call.
  \<^item> \<open>os_OpenFile\<close>: the descriptor and the error.
  \<^item> \<open>os_Lstat\<close>: \<^verbatim>\<open>info.IsDir()\<close> and the error of \<^verbatim>\<open>os.Lstat\<close>.
  \<^item> \<open>statToFuseAttr\<close>: the attribute translation.
  \<^item> \<open>dirent_stat\<close>: the inode and kind that a stat of a path yields for a
    directory entry.
  \<^item> \<open>doOpen_result\<close>: what opening a handle yields, an error number or the
    descriptor with its fresh handle identifier.
  \<^item> \<open>doClose_result\<close>: the error of closing a descriptor, \<open>None\<close> for
    nil.
  \<^item> \<open>new_handleID\<close>: the identifier given to the handle of a created file.
\<close>

record backing =
  b_goos :: goos
  sys_Lstat :: "string \<Rightarrow> errno + stat_t"
  readdirnames :: "nat \<Rightarrow> string list \<times> go_error"
  os_Mkdir :: "string \<Rightarrow> 32 word \<Rightarrow> go_error"
  os_Remove :: "string \<Rightarrow> go_error"
  os_OpenFile :: "string \<Rightarrow> int \<Rightarrow> 32 word \<Rightarrow> nat \<times> go_error"
  os_Lstat :: "string \<Rightarrow> bool \<times> go_error"
  os_Symlink :: "string \<Rightarrow> string \<Rightarrow> go_error"
  statToFuseAttr :: "stat_t \<Rightarrow> attr"
  dirent_stat :: "string \<Rightarrow> nat \<times> nat"
  doOpen_result :: "string \<Rightarrow> int \<Rightarrow> 32 word \<Rightarrow> errno + nat \<times> nat"
  doClose_result :: "nat \<Rightarrow> errno option"
  new_handleID :: nat

text \<open>The variable \<^verbatim>\<open>skipDirEntry\<close>, as \<^verbatim>\<open>init\<close> sets it from
  \<^verbatim>\<open>runtime.GOOS\<close>.\<close>

fun skipDirEntry :: "goos \<Rightarrow> string \<Rightarrow> bool" where
  "skipDirEntry Darwin n = HasPrefix n ''._''"
| "skipDirEntry _ n = False"

text \<open>Modelled from the spec: \<^verbatim>\<open>getFuseDirent\<close> (not in dir.go).  A Dirent
  \<open>{inode, name, kind}\<close> is derived from a stat of the path and carries the
  name it is given.\<close>

definition getFuseDirent :: "backing \<Rightarrow> string \<Rightarrow> string \<Rightarrow> dirent" where
  "getFuseDirent b path name =
     \<lparr>Inode = fst (dirent_stat b path), Name = name, Type = snd (dirent_stat b path)\<rparr>"

text \<open>Modelled from the spec: \<^verbatim>\<open>Handle.doOpen\<close> and
  \<^verbatim>\<open>Handle.doClose\<close> (not in dir.go).  Opening binds the backing
  descriptor and a fresh handle identifier; a failed open leaves the handle as
  it was.  Closing takes the transition from open to closed and surfaces the
  error of the close.  \<^verbatim>\<open>Handle.doSync\<close> flushes the descriptor; dir.go
  discards its result, so the call is only recorded as an event.\<close>

definition doOpen :: "backing \<Rightarrow> handle \<Rightarrow> string \<Rightarrow> int \<Rightarrow> 32 word \<Rightarrow> errno option \<times> handle" where
  "doOpen b h path flags perm =
     (case doOpen_result b path flags perm of
        Inl e \<Rightarrow> (Some e, h)
      | Inr (f, hid) \<Rightarrow> (None, \<lparr>h_file = Some f, h_handleID = hid\<rparr>))"

definition doClose :: "backing \<Rightarrow> handle \<Rightarrow> errno option \<times> handle" where
  "doClose b h =
     (case h_file h of
        None \<Rightarrow> (None, h)
      | Some f \<Rightarrow> (doClose_result b f, h\<lparr>h_file := None\<rparr>))"

text \<open>Modelled from the spec: \<^verbatim>\<open>NewOpenFile\<close> (not in dir.go).  Create
  returns a node whose handle is already open on the descriptor just obtained;
  the handle identifier is the one the backing parameter supplies.\<close>

definition NewOpenFile :: "backing \<Rightarrow> string \<Rightarrow> string \<Rightarrow> clueFS \<Rightarrow> nat \<Rightarrow> file_node" where
  "NewOpenFile b parent name fs f =
     \<lparr>f_node = NewNode parent name fs,
      f_handle = \<lparr>h_file = Some f, h_handleID = new_handleID b\<rparr>\<rparr>"

subsection \<open>The operations of dir.go\<close>

text \<open>
  Each operation returns its Go results and the events it caused, in order.
  A deferred \<^verbatim>\<open>trace\<close> call runs when the function returns or panics,
  so its record comes last; a path that returns before the \<^verbatim>\<open>defer\<close>
  statement emits none.  A nil result is \<open>None\<close>.
\<close>

definition SetProcessInfo :: "dir \<Rightarrow> header \<Rightarrow> dir" where
  "SetProcessInfo d h = d\<lparr>d_procInfo := \<lparr>Uid = hd_Uid h, Gid = hd_Gid h, Pid = hd_Pid h\<rparr>\<rparr>"

text \<open>\<^verbatim>\<open>Dir.Open\<close>; the third result is the value written to
  \<^verbatim>\<open>resp.Handle\<close>.\<close>

definition Open :: "backing \<Rightarrow> dir \<Rightarrow> openRequest
    \<Rightarrow> (dir option \<times> errno option \<times> nat option) \<times> event list" where
  "Open b d req =
     (let tr = Trace (OpenOp req (n_path (d_node d)));
          perm = open_Flags req AND 511;
          flags = uint (open_Flags req);
          newdir = NewDir (n_parent (d_node d)) (n_name (d_node d)) (n_fs (d_node d));
          (err, h) = doOpen b (d_handle newdir) (n_path (d_node d)) flags perm;
          ev = [Call (Handle_doOpen (n_path (d_node d)) flags perm)]
      in if err \<noteq> None then ((None, err, None), ev @ [tr])
         else (let newdir' = SetProcessInfo (newdir\<lparr>d_handle := h\<rparr>) (open_Header req)
               in ((Some newdir', None, Some (h_handleID h)), ev @ [tr])))"

text \<open>\<^verbatim>\<open>Dir.Release\<close>; the directory is returned with its handle as the
  call leaves it.\<close>

definition Release :: "backing \<Rightarrow> dir \<Rightarrow> releaseRequest
    \<Rightarrow> (errno option \<times> dir) \<times> event list" where
  "Release b d req =
     (if \<not> isOpen (d_handle d) then ((None, d), [])
      else (let tr = Trace (ReleaseOp req (n_path (d_node d)));
                ev_sync = (if ReleaseFlags req AND ReleaseFlush \<noteq> 0
                           then [Call (Handle_doSync (d_handle d))] else []);
                (err, h) = doClose b (d_handle d)
            in ((err, d\<lparr>d_handle := h\<rparr>),
                ev_sync @ [Call (Handle_doClose (d_handle d))] @ [tr])))"

text \<open>\<^verbatim>\<open>Dir.Lookup\<close>; the third result is the response as filled in.\<close>

definition Lookup :: "backing \<Rightarrow> dir \<Rightarrow> lookupRequest
    \<Rightarrow> (fs_node option \<times> errno option \<times> lookupResponse option) \<times> event list" where
  "Lookup b d req =
     (if skipDirEntry (b_goos b) (lookup_Name req) then ((None, Some ENOENT, None), [])
      else (let path = Join [n_path (d_node d), lookup_Name req];
                isDir = False;
                tr = Trace (LookupOp req path isDir);
                ev = [Call (Sys_Lstat path)]
            in (case sys_Lstat b path of
                  Inl err \<Rightarrow> ((None, Some ENOENT, None), ev @ [tr])
                | Inr st \<Rightarrow>
                    (let a = statToFuseAttr b st;
                         resp = \<lparr>resp_Attr = a, resp_Node = a_Inode a,
                                 resp_AttrValid = 1 * 1000000000,
                                 resp_EntryValid = 500 * 1000000\<rparr>
                     in if a_IsDir a
                        then ((Some (DirNode (NewDir (n_path (d_node d)) (lookup_Name req)
                                 (n_fs (d_node d)))), None, Some resp), ev @ [tr])
                        else ((Some (FileNode (NewFile (n_path (d_node d)) (lookup_Name req)
                                 (n_fs (d_node d)))), None, Some resp), ev @ [tr])))))"

text \<open>The loop of \<^verbatim>\<open>Dir.ReadDirAll\<close> over the names, appending to
  \<open>result\<close>.\<close>

fun readdir_loop :: "backing \<Rightarrow> string \<Rightarrow> string list \<Rightarrow> dirent list \<Rightarrow> dirent list" where
  "readdir_loop b path [] result = result"
| "readdir_loop b path (n # ns) result =
     (if skipDirEntry (b_goos b) n then readdir_loop b path ns result
      else readdir_loop b path ns (result @ [getFuseDirent b (Join [path, n]) n]))"

text \<open>\<^verbatim>\<open>d.file.Readdirnames(0)\<close>: on a nil file the method returns the
  error \<^verbatim>\<open>os.ErrInvalid\<close>.\<close>

fun Readdirnames :: "backing \<Rightarrow> nat option \<Rightarrow> string list \<times> go_error" where
  "Readdirnames b None = ([], OtherErr ''invalid argument'')"
| "Readdirnames b (Some f) = readdirnames b f"

text \<open>\<^verbatim>\<open>Dir.ReadDirAll\<close>.\<close>

definition ReadDirAll :: "backing \<Rightarrow> dir
    \<Rightarrow> (dirent list option \<times> errno option) \<times> event list" where
  "ReadDirAll b d =
     (if \<not> isOpen (d_handle d) then ((None, Some (ENOTSUP (b_goos b))), [])
      else (let tr = Trace (ReadDirOp (n_path (d_node d)) (d_procInfo d));
                (names, err) = Readdirnames b (h_file (d_handle d));
                ev = [Call (File_Readdirnames (h_file (d_handle d)))]
            in if err \<noteq> NilErr then ((None, Some EIO), ev @ [tr])
               else (let result = readdir_loop b (n_path (d_node d)) names [];
                         dots0 = getFuseDirent b (n_path (d_node d)) ''.'';
                         dots1 = (if length (n_parent (d_node d)) > 0
                                  then getFuseDirent b (n_parent (d_node d)) ''..''
                                  else dots0\<lparr>Name := ''..''\<rparr>)
                     in ((Some (result @ [dots0, dots1]), None), ev @ [tr]))))"

text \<open>\<^verbatim>\<open>Dir.Mkdir\<close>.\<close>

definition Mkdir :: "backing \<Rightarrow> dir \<Rightarrow> mkdirRequest
    \<Rightarrow> (dir option \<times> errno option) outcome \<times> event list" where
  "Mkdir b d req =
     (let path = Join [n_path (d_node d), mkdir_Name req];
          tr = Trace (MkdirOp req path (mkdir_Mode req));
          err = os_Mkdir b path (mkdir_Mode req);
          ev = [Call (Os_Mkdir path (mkdir_Mode req))]
      in if err \<noteq> NilErr then
           (case osErrorToFuseError err of
              Panic \<Rightarrow> (Panic, ev @ [tr])
            | Returns e \<Rightarrow> (Returns (None, e), ev @ [tr]))
         else (Returns (Some (NewDir (n_path (d_node d)) (mkdir_Name req) (n_fs (d_node d))),
                 None), ev @ [tr]))"

text \<open>\<^verbatim>\<open>Dir.Remove\<close>.\<close>

definition Remove :: "backing \<Rightarrow> dir \<Rightarrow> removeRequest
    \<Rightarrow> errno option outcome \<times> event list" where
  "Remove b d req =
     (let path = Join [n_path (d_node d), remove_Name req];
          tr = Trace (RemoveOp req path);
          err = os_Remove b path;
          ev = [Call (Os_Remove path)]
      in if err \<noteq> NilErr then
           (case osErrorToFuseError err of
              Panic \<Rightarrow> (Panic, ev @ [tr])
            | Returns e \<Rightarrow> (Returns e, ev @ [tr]))
         else (Returns None, ev @ [tr]))"

text \<open>\<^verbatim>\<open>Dir.Create\<close>; the new file is returned as node and as handle.\<close>

definition Create :: "backing \<Rightarrow> dir \<Rightarrow> createRequest
    \<Rightarrow> (file_node option \<times> file_node option \<times> errno option) outcome \<times> event list" where
  "Create b d req =
     (let path = Join [n_path (d_node d), create_Name req];
          tr = Trace (CreateOp req path);
          (f, err) = os_OpenFile b path (uint (create_Flags req)) (create_Mode req);
          ev = [Call (Os_OpenFile path (uint (create_Flags req)) (create_Mode req))]
      in if err \<noteq> NilErr then
           (case osErrorToFuseError err of
              Panic \<Rightarrow> (Panic, ev @ [tr])
            | Returns e \<Rightarrow> (Returns (None, None, e), ev @ [tr]))
         else (let newfile = NewOpenFile b (n_path (d_node d)) (create_Name req)
                               (n_fs (d_node d)) f
               in (Returns (Some newfile, Some newfile, None), ev @ [tr])))"

text \<open>
  \<^verbatim>\<open>Dir.Symlink\<close>.  \<open>symlink_targets\<close> is the computation of
  \<^verbatim>\<open>absTarget\<close> and \<^verbatim>\<open>linkTarget\<close> (the first and second
  component); the link is then created from \<^verbatim>\<open>linkTarget\<close>, which is the
  first argument of \<open>Os_Symlink\<close>.
\<close>

definition symlink_targets :: "dir \<Rightarrow> symlinkRequest \<Rightarrow> string \<times> string" where
  "symlink_targets d req =
     (let linkTarget = Target req;
          absTarget = linkTarget;
          absTarget = (if \<not> IsAbs (Target req) then Join [n_path (d_node d), Target req]
                       else absTarget)
      in if HasPrefix absTarget (mountDir (n_fs (d_node d)))
         then (let absTarget = Replace1 absTarget (mountDir (n_fs (d_node d)))
                                 (shadowDir (n_fs (d_node d)));
                   linkTarget = absTarget
               in (absTarget, linkTarget))
         else (absTarget, linkTarget))"

definition Symlink :: "backing \<Rightarrow> dir \<Rightarrow> symlinkRequest
    \<Rightarrow> (fs_node option \<times> errno option) outcome \<times> event list" where
  "Symlink b d req =
     (let absNewName = Join [n_path (d_node d), NewName req];
          targetIsDir = False;
          tr = Trace (SymlinkOp req absNewName (Target req) targetIsDir);
          (absTarget, linkTarget) = symlink_targets d req;
          (info_IsDir, lstat_err) = os_Lstat b absTarget;
          targetIsDir = (if lstat_err = NilErr then info_IsDir else targetIsDir);
          err = os_Symlink b linkTarget absNewName;
          ev = [Call (Os_Lstat absTarget), Call (Os_Symlink linkTarget absNewName)]
      in if err \<noteq> NilErr then
           (case osErrorToFuseError err of
              Panic \<Rightarrow> (Panic, ev @ [tr])
            | Returns e \<Rightarrow> (Returns (None, e), ev @ [tr]))
         else if targetIsDir then
           (Returns (Some (DirNode (NewDir (n_path (d_node d)) (NewName req)
              (n_fs (d_node d)))), None), ev @ [tr])
         else
           (Returns (Some (FileNode (NewFile (n_path (d_node d)) (NewName req)
              (n_fs (d_node d)))), None), ev @ [tr]))"

subsection \<open>The containment the specification asks for\<close>

text \<open>
  The specification speaks of a link target that falls under the mount root.
  As a relation on paths: the target is the root itself, or continues the root
  at a path separator.  \<open>symlink_targets\<close> tests \<open>HasPrefix\<close> instead.
\<close>

definition spec_under_root :: "string \<Rightarrow> string \<Rightarrow> bool" where
  "spec_under_root p root = (p = root \<or> HasPrefix p (root @ ''/''))"

subsection \<open>A concrete file system for the examples\<close>

text \<open>
  The mount of the specification's example: mount root \<^verbatim>\<open>/mnt/x\<close>, shadow
  root \<^verbatim>\<open>/data/x\<close>.  In the backing directory only \<^verbatim>\<open>/data/x/a\<close>
  exists, a directory; every directory lists the names \<^verbatim>\<open>a\<close>,
  \<^verbatim>\<open>._a\<close> and \<^verbatim>\<open>b\<close>; removing fails with
  \<^verbatim>\<open>ENOENT\<close>, the other calls succeed.
\<close>

definition example_fs :: clueFS where
  "example_fs = \<lparr>mountDir = ''/mnt/x'', shadowDir = ''/data/x''\<rparr>"

definition example_Lstat :: "string \<Rightarrow> errno + stat_t" where
  "example_Lstat p =
     (if p = ''/data/x/a'' then Inr \<lparr>st_Ino = 7, st_Mode = 2147484141\<rparr> else Inl ENOENT)"

definition example_attr :: "stat_t \<Rightarrow> attr" where
  "example_attr st = \<lparr>a_Inode = st_Ino st, a_IsDir = (st_Mode st AND 2147483648 \<noteq> 0)\<rparr>"

definition example_os_Lstat :: "string \<Rightarrow> bool \<times> go_error" where
  "example_os_Lstat p =
     (if p = ''/data/x/a'' then (True, NilErr)
      else (False, PathError ''lstat'' p (Errno ENOENT)))"

definition example_Remove :: "string \<Rightarrow> go_error" where
  "example_Remove p = PathError ''remove'' p (Errno ENOENT)"

definition example_backing :: "goos \<Rightarrow> backing" where
  "example_backing os =
     \<lparr>b_goos = os,
      sys_Lstat = example_Lstat,
      readdirnames = (\<lambda>f. ([''a'', ''._a'', ''b''], NilErr)),
      os_Mkdir = (\<lambda>p m. NilErr),
      os_Remove = example_Remove,
      os_OpenFile = (\<lambda>p fl m. (4, NilErr)),
      os_Lstat = example_os_Lstat,
      os_Symlink = (\<lambda>t n. NilErr),
      statToFuseAttr = example_attr,
      dirent_stat = (\<lambda>p. (length p, 0)),
      doOpen_result = (\<lambda>p fl m. Inr (3, 1)),
      doClose_result = (\<lambda>f. None),
      new_handleID = 2\<rparr>"

text \<open>The root directory of the mount as it is first made (its handle closed),
  the same directory with an open handle, and the directory \<^verbatim>\<open>a\<close>
  below it, open.\<close>

definition closed_root :: dir where
  "closed_root = NewDir [] ''/data/x'' example_fs"

definition open_root :: dir where
  "open_root = closed_root\<lparr>d_handle := \<lparr>h_file = Some 3, h_handleID = 1\<rparr>\<rparr>"

definition open_a :: dir where
  "open_a = (NewDir ''/data/x'' ''a'' example_fs)\<lparr>d_handle := \<lparr>h_file = Some 3, h_handleID = 1\<rparr>\<rparr>"

text \<open>The same file system with a backing directory that cannot be read:
  \<^verbatim>\<open>Readdirnames\<close> yields no name and the path error of the failed
  read.\<close>

definition failing_readdirnames :: "nat \<Rightarrow> string list \<times> go_error" where
  "failing_readdirnames f = ([], PathError ''readdirent'' ''/data/x'' (Errno EIO))"

definition failing_backing :: backing where
  "failing_backing = (example_backing Linux)\<lparr>readdirnames := failing_readdirnames\<rparr>"

section \<open>Properties\<close>

subsection \<open>Auxiliary facts\<close>

lemma trace_records_append:
  "trace_records (xs @ ys) = trace_records xs @ trace_records ys"
  by (induction xs rule: trace_records.induct) simp_all

lemma backing_calls_append:
  "backing_calls (xs @ ys) = backing_calls xs @ backing_calls ys"
  by (induction xs rule: backing_calls.induct) simp_all

text \<open>The loop of ReadDirAll appends, in the order of the names, one entry for
  each name that is not suppressed.\<close>

lemma readdir_loop_eq:
  "readdir_loop b path names result =
     result @ map (\<lambda>n. getFuseDirent b (Join [path, n]) n)
                (filter (\<lambda>n. \<not> skipDirEntry (b_goos b) n) names)"
  by (induction names arbitrary: result) simp_all

lemma map_Name_getFuseDirent:
  "map Name (map (\<lambda>n. getFuseDirent b (f n) n) ns) = ns"
  by (induction ns) (simp_all add: getFuseDirent_def)

lemma skipDirEntry_dots:
  "\<not> skipDirEntry os ''.''" "\<not> skipDirEntry os ''..''"
  by (cases os; simp add: HasPrefix_def)+

text \<open>A prefix is the first occurrence, so replacing once replaces the prefix.\<close>

lemma Index_HasPrefix: "HasPrefix s pre \<Longrightarrow> Index s pre = Some 0"
  by (cases s) (simp_all add: HasPrefix_def)

lemma Replace1_HasPrefix:
  assumes "HasPrefix s old"
  shows "Replace1 s old new = new @ drop (length old) s"
proof (cases "old = new")
  case True
  with assms have "take (length new) s = new" by (simp add: HasPrefix_def)
  then have "new @ drop (length new) s = s" by (metis append_take_drop_id)
  with True show ?thesis by (simp add: Replace1_def)
next
  case False
  with assms show ?thesis by (simp add: Replace1_def Index_HasPrefix)
qed

text \<open>The trace records of each operation.\<close>

lemma Open_trace:
  "trace_records (snd (Open b d req)) = [OpenOp req (n_path (d_node d))]"
  by (simp add: Open_def Let_def split: prod.splits)

lemma Release_trace:
  "trace_records (snd (Release b d req)) =
     (if isOpen (d_handle d) then [ReleaseOp req (n_path (d_node d))] else [])"
  by (simp add: Release_def Let_def trace_records_append split: prod.splits)

lemma Lookup_trace:
  "trace_records (snd (Lookup b d req)) =
     (if skipDirEntry (b_goos b) (lookup_Name req) then []
      else [LookupOp req (Join [n_path (d_node d), lookup_Name req]) False])"
  by (simp add: Lookup_def Let_def split: sum.splits)

lemma ReadDirAll_trace:
  "trace_records (snd (ReadDirAll b d)) =
     (if isOpen (d_handle d) then [ReadDirOp (n_path (d_node d)) (d_procInfo d)] else [])"
  by (simp add: ReadDirAll_def Let_def split: prod.splits)

lemma Mkdir_trace:
  "trace_records (snd (Mkdir b d req)) =
     [MkdirOp req (Join [n_path (d_node d), mkdir_Name req]) (mkdir_Mode req)]"
  by (simp add: Mkdir_def Let_def split: outcome.splits)

lemma Remove_trace:
  "trace_records (snd (Remove b d req)) =
     [RemoveOp req (Join [n_path (d_node d), remove_Name req])]"
  by (simp add: Remove_def Let_def split: outcome.splits)

lemma Create_trace:
  "trace_records (snd (Create b d req)) =
     [CreateOp req (Join [n_path (d_node d), create_Name req])]"
  by (simp add: Create_def Let_def split: outcome.splits prod.splits)

lemma Symlink_trace:
  "trace_records (snd (Symlink b d req)) =
     [SymlinkOp req (Join [n_path (d_node d), NewName req]) (Target req) False]"
  by (simp add: Symlink_def Let_def split: outcome.splits prod.splits)

text \<open>What ReadDirAll returns on an open handle whose enumeration succeeds,
  and the shape of every sequence it returns.\<close>

lemma ReadDirAll_open_ok:
  assumes "isOpen (d_handle d)"
    and "Readdirnames b (h_file (d_handle d)) = (names, NilErr)"
  shows "fst (ReadDirAll b d) =
     (Some (map (\<lambda>n. getFuseDirent b (Join [n_path (d_node d), n]) n)
              (filter (\<lambda>n. \<not> skipDirEntry (b_goos b) n) names)
            @ [getFuseDirent b (n_path (d_node d)) ''.'',
               if length (n_parent (d_node d)) > 0
               then getFuseDirent b (n_parent (d_node d)) ''..''
               else (getFuseDirent b (n_path (d_node d)) ''.'')\<lparr>Name := ''..''\<rparr>]), None)"
  using assms by (simp add: ReadDirAll_def Let_def readdir_loop_eq)

lemma ReadDirAll_Some:
  assumes "fst (ReadDirAll b d) = (Some es, err)"
  shows "\<exists>names. es = map (\<lambda>n. getFuseDirent b (Join [n_path (d_node d), n]) n)
              (filter (\<lambda>n. \<not> skipDirEntry (b_goos b) n) names)
            @ [getFuseDirent b (n_path (d_node d)) ''.'',
               if length (n_parent (d_node d)) > 0
               then getFuseDirent b (n_parent (d_node d)) ''..''
               else (getFuseDirent b (n_path (d_node d)) ''.'')\<lparr>Name := ''..''\<rparr>]"
  using assms
  by (auto simp: ReadDirAll_def Let_def readdir_loop_eq split: if_splits prod.splits)

text \<open>The example values, evaluated.\<close>

lemma example_paths:
  "n_path (d_node closed_root) = ''/data/x''"
  "n_path (d_node open_root) = ''/data/x''"
  "n_path (d_node open_a) = ''/data/x/a''"
  "n_parent (d_node open_root) = []"
  "n_fs (d_node open_a) = example_fs"
  by (code_simp)+

lemma example_handles:
  "d_handle closed_root = \<lparr>h_file = None, h_handleID = 0\<rparr>"
  "d_handle open_root = \<lparr>h_file = Some 3, h_handleID = 1\<rparr>"
  "d_handle open_a = \<lparr>h_file = Some 3, h_handleID = 1\<rparr>"
  by (simp_all add: closed_root_def open_root_def open_a_def NewDir_def zero_Handle_def)

lemma example_joins:
  "Join [''/data/x'', ''a''] = ''/data/x/a''"
  "Join [''/data/x'', ''b''] = ''/data/x/b''"
  "Join [''/data/x'', ''._a''] = ''/data/x/._a''"
  "Join [''/data/x'', ''zz''] = ''/data/x/zz''"
  "Join [''/data/x/a'', ''link''] = ''/data/x/a/link''"
  by (code_simp)+

text \<open>The two link targets of the specification's example: below the mount
  root the target is moved to the shadow root, \<^verbatim>\<open>/etc/passwd\<close> is kept.\<close>

lemma Symlink_spec_examples:
  "backing_calls (snd (Symlink b open_a \<lparr>NewName = ''link'', Target = ''/mnt/x/b/file''\<rparr>)) =
     [Os_Lstat ''/data/x/b/file'', Os_Symlink ''/data/x/b/file'' ''/data/x/a/link'']"
  "backing_calls (snd (Symlink b open_a \<lparr>NewName = ''link'', Target = ''/etc/passwd''\<rparr>)) =
     [Os_Lstat ''/etc/passwd'', Os_Symlink ''/etc/passwd'' ''/data/x/a/link'']"
  by (simp_all add: Symlink_def symlink_targets_def Let_def IsAbs_def HasPrefix_def Replace1_def
      example_paths example_fs_def example_joins
      del: Join.simps split: prod.splits outcome.splits)

subsection \<open>Trace records\<close>

text \<open>
  Claim C1, as the code has it: every invocation emits at most one trace
  record.  Open, Mkdir, Remove, Create and Symlink emit exactly one whatever the
  outcome (also when the error translation panics); Release and ReadDirAll emit
  one when the handle is open and none when it is not; Lookup emits one unless
  the name is suppressed, and none for a suppressed name.
\<close>

theorem trace_records_per_invocation:
  "length (trace_records (snd (Open b d oreq))) = 1 \<and>
   length (trace_records (snd (Mkdir b d mreq))) = 1 \<and>
   length (trace_records (snd (Remove b d rmreq))) = 1 \<and>
   length (trace_records (snd (Create b d creq))) = 1 \<and>
   length (trace_records (snd (Symlink b d sreq))) = 1 \<and>
   length (trace_records (snd (Release b d rreq))) = (if isOpen (d_handle d) then 1 else 0) \<and>
   length (trace_records (snd (ReadDirAll b d))) = (if isOpen (d_handle d) then 1 else 0) \<and>
   length (trace_records (snd (Lookup b d lreq))) =
     (if skipDirEntry (b_goos b) (lookup_Name lreq) then 0 else 1)"
  by (simp add: Open_trace Mkdir_trace Remove_trace Create_trace Symlink_trace
      Release_trace ReadDirAll_trace Lookup_trace)

text \<open>Claim C1 at a directory whose handle is closed, on Darwin: the five
  unguarded operations emit one record, Release, ReadDirAll and the Lookup of
  \<^verbatim>\<open>._a\<close> emit none.\<close>

theorem trace_records_per_invocation_witness:
  "length (trace_records (snd (Open (example_backing Darwin) closed_root
      \<lparr>open_Header = \<lparr>hd_Uid = 1000, hd_Gid = 100, hd_Pid = 4242\<rparr>, open_Flags = 0\<rparr>))) = 1 \<and>
   length (trace_records (snd (Mkdir (example_backing Darwin) closed_root
      \<lparr>mkdir_Name = ''q'', mkdir_Mode = 493\<rparr>))) = 1 \<and>
   length (trace_records (snd (Remove (example_backing Darwin) closed_root
      \<lparr>remove_Name = ''q''\<rparr>))) = 1 \<and>
   length (trace_records (snd (Create (example_backing Darwin) closed_root
      \<lparr>create_Name = ''q'', create_Flags = 66, create_Mode = 420\<rparr>))) = 1 \<and>
   length (trace_records (snd (Symlink (example_backing Darwin) closed_root
      \<lparr>NewName = ''link'', Target = ''/etc/passwd''\<rparr>))) = 1 \<and>
   length (trace_records (snd (Release (example_backing Darwin) closed_root
      \<lparr>ReleaseFlags = 0\<rparr>))) = 0 \<and>
   length (trace_records (snd (ReadDirAll (example_backing Darwin) closed_root))) = 0 \<and>
   length (trace_records (snd (Lookup (example_backing Darwin) closed_root
      \<lparr>lookup_Name = ''._a''\<rparr>))) = 0"
  using trace_records_per_invocation [where b = "example_backing Darwin" and d = closed_root
      and oreq = "\<lparr>open_Header = \<lparr>hd_Uid = 1000, hd_Gid = 100, hd_Pid = 4242\<rparr>, open_Flags = 0\<rparr>"
      and mreq = "\<lparr>mkdir_Name = ''q'', mkdir_Mode = 493\<rparr>"
      and rmreq = "\<lparr>remove_Name = ''q''\<rparr>"
      and creq = "\<lparr>create_Name = ''q'', create_Flags = 66, create_Mode = 420\<rparr>"
      and sreq = "\<lparr>NewName = ''link'', Target = ''/etc/passwd''\<rparr>"
      and rreq = "\<lparr>ReleaseFlags = 0\<rparr>"
      and lreq = "\<lparr>lookup_Name = ''._a''\<rparr>"]
  by (simp add: example_handles isOpen_def example_backing_def HasPrefix_def)

text \<open>Claim C1 as stated fails: a Release on the freshly made root directory,
  whose handle is closed, returns before the deferred trace call and emits no
  record, not one.\<close>

theorem Release_closed_emits_no_record:
  "length (trace_records (snd (Release (example_backing Linux) closed_root
      \<lparr>ReleaseFlags = 0\<rparr>))) \<noteq> 1"
  by (simp add: Release_def example_handles isOpen_def)

subsection \<open>Error translation\<close>

text \<open>
  Claim C2 says the translator never crashes.  It panics on a path or link
  error that wraps anything but a \<^verbatim>\<open>syscall.Errno\<close> (here the error of
  reading a closed file, and a nil inner error), and on every
  \<^verbatim>\<open>*syscall.Errno\<close>: the branch that tests for the pointer type asserts
  the value type.
\<close>

theorem osErrorToFuseError_panics:
  "osErrorToFuseError (PathError ''read'' ''/data/x/f'' (OtherErr ''file already closed'')) = Panic \<and>
   osErrorToFuseError (LinkError ''symlink'' ''/a'' ''/b'' NilErr) = Panic \<and>
   osErrorToFuseError (ErrnoPtr ENOENT) = Panic"
  by (simp add: osErrorToFuseError_def)

text \<open>
  Claim C3 says each of the three recognised shapes is unwrapped to the code
  it carries.  Path and link errors that carry an error number are, and an
  unrecognised shape becomes \<^verbatim>\<open>EIO\<close>; but a bare \<^verbatim>\<open>syscall.Errno\<close>
  is not matched by the test for \<^verbatim>\<open>*syscall.Errno\<close>, so
  \<^verbatim>\<open>ENOENT\<close> is translated to \<^verbatim>\<open>EIO\<close>, not to \<^verbatim>\<open>ENOENT\<close>.
\<close>

theorem osErrorToFuseError_bare_Errno:
  "osErrorToFuseError (PathError op p (Errno e)) = Returns (Some e) \<and>
   osErrorToFuseError (LinkError op old new (Errno e)) = Returns (Some e) \<and>
   osErrorToFuseError (OtherErr msg) = Returns (Some EIO) \<and>
   osErrorToFuseError (Errno ENOENT) = Returns (Some EIO) \<and>
   osErrorToFuseError (Errno ENOENT) \<noteq> Returns (Some ENOENT)"
  by (simp add: osErrorToFuseError_def EIO_def ENOENT_def)

subsection \<open>Symbolic links\<close>

text \<open>
  Claim C4 says an absolute target that is not under the mount root is
  persisted unchanged.  With mount root \<^verbatim>\<open>/mnt/x\<close> and shadow root
  \<^verbatim>\<open>/data/x\<close>, the absolute target \<^verbatim>\<open>/mnt/xtra/f\<close> is not under the
  mount root, yet the link is created with the target \<^verbatim>\<open>/data/xtra/f\<close>,
  whatever the backing file system answers.
\<close>

theorem Symlink_rewrites_outside_mount:
  "IsAbs ''/mnt/xtra/f'' \<and>
   \<not> spec_under_root ''/mnt/xtra/f'' (mountDir (n_fs (d_node open_a))) \<and>
   backing_calls (snd (Symlink b open_a \<lparr>NewName = ''link'', Target = ''/mnt/xtra/f''\<rparr>)) =
     [Os_Lstat ''/data/xtra/f'', Os_Symlink ''/data/xtra/f'' ''/data/x/a/link''] \<and>
   ''/data/xtra/f'' \<noteq> ''/mnt/xtra/f''"
  by (simp add: Symlink_def symlink_targets_def Let_def IsAbs_def HasPrefix_def Replace1_def
      spec_under_root_def example_paths example_fs_def example_joins
      del: Join.simps split: prod.splits outcome.splits)

text \<open>
  Claim C10: the containment check of Symlink is a test on strings.  Let
  \<open>absT\<close> be the target made absolute (the target itself when it is absolute,
  else joined to the directory's path).  Whenever the mount root is a string
  prefix of \<open>absT\<close>, replacing the first occurrence of the mount root puts the
  shadow root in place of that prefix, and the result is both the path that is
  examined and the target the link is created with.
\<close>

theorem Symlink_rewrites_on_string_prefix:
  assumes abs: "absT = (if IsAbs (Target req) then Target req
                        else Join [n_path (d_node d), Target req])"
    and pre: "HasPrefix absT (mountDir (n_fs (d_node d)))"
  shows "Replace1 absT (mountDir (n_fs (d_node d))) (shadowDir (n_fs (d_node d))) =
           shadowDir (n_fs (d_node d)) @ drop (length (mountDir (n_fs (d_node d)))) absT \<and>
         symlink_targets d req =
           (shadowDir (n_fs (d_node d)) @ drop (length (mountDir (n_fs (d_node d)))) absT,
            shadowDir (n_fs (d_node d)) @ drop (length (mountDir (n_fs (d_node d)))) absT) \<and>
         backing_calls (snd (Symlink b d req)) =
           [Os_Lstat (shadowDir (n_fs (d_node d)) @ drop (length (mountDir (n_fs (d_node d)))) absT),
            Os_Symlink (shadowDir (n_fs (d_node d)) @ drop (length (mountDir (n_fs (d_node d)))) absT)
              (Join [n_path (d_node d), NewName req])]"
proof -
  let ?R = "shadowDir (n_fs (d_node d)) @ drop (length (mountDir (n_fs (d_node d)))) absT"
  have r: "Replace1 absT (mountDir (n_fs (d_node d))) (shadowDir (n_fs (d_node d))) = ?R"
    by (rule Replace1_HasPrefix [OF pre])
  have t: "symlink_targets d req = (?R, ?R)"
  proof (cases "IsAbs (Target req)")
    case True
    with abs have "absT = Target req" by simp
    with pre r True show ?thesis
      by (simp add: symlink_targets_def Let_def del: Join.simps)
  next
    case False
    with abs have "absT = Join [n_path (d_node d), Target req]" by simp
    with pre r False show ?thesis
      by (simp add: symlink_targets_def Let_def del: Join.simps)
  qed
  have "backing_calls (snd (Symlink b d req)) =
          [Os_Lstat ?R, Os_Symlink ?R (Join [n_path (d_node d), NewName req])]"
    by (simp add: Symlink_def Let_def t del: Join.simps split: prod.splits outcome.splits)
  with r t show ?thesis by simp
qed

text \<open>Claim C10 at the target \<^verbatim>\<open>/mnt/xtra/f\<close>, which begins with the
  mount root \<^verbatim>\<open>/mnt/x\<close> and lies outside the mounted tree: the link is
  created with \<^verbatim>\<open>/data/xtra/f\<close>.\<close>

theorem Symlink_rewrites_on_string_prefix_witness:
  "HasPrefix ''/mnt/xtra/f'' (mountDir (n_fs (d_node open_a))) \<and>
   \<not> spec_under_root ''/mnt/xtra/f'' (mountDir (n_fs (d_node open_a))) \<and>
   symlink_targets open_a \<lparr>NewName = ''link'', Target = ''/mnt/xtra/f''\<rparr> =
     (''/data/xtra/f'', ''/data/xtra/f'') \<and>
   backing_calls (snd (Symlink (example_backing Linux) open_a
       \<lparr>NewName = ''link'', Target = ''/mnt/xtra/f''\<rparr>)) =
     [Os_Lstat ''/data/xtra/f'', Os_Symlink ''/data/xtra/f'' ''/data/x/a/link'']"
proof -
  let ?req = "\<lparr>NewName = ''link'', Target = ''/mnt/xtra/f''\<rparr>"
  have a: "''/mnt/xtra/f'' = (if IsAbs (Target ?req) then Target ?req
                        else Join [n_path (d_node open_a), Target ?req])"
    by (simp add: IsAbs_def HasPrefix_def)
  have p: "HasPrefix ''/mnt/xtra/f'' (mountDir (n_fs (d_node open_a)))"
    by (simp add: example_paths example_fs_def HasPrefix_def)
  have n: "\<not> spec_under_root ''/mnt/xtra/f'' (mountDir (n_fs (d_node open_a)))"
    by (simp add: example_paths example_fs_def spec_under_root_def HasPrefix_def)
  from Symlink_rewrites_on_string_prefix [OF a p, of "example_backing Linux"] p n
  show ?thesis
    by (simp add: example_paths example_fs_def example_joins del: Join.simps)
qed

subsection \<open>Directory enumeration\<close>

text \<open>
  Claim C5, as the code has it: on an open directory whose enumeration of the
  backing directory succeeds with the names \<open>names\<close>, none of them
  \<^verbatim>\<open>.\<close> or \<^verbatim>\<open>..\<close> (\<^verbatim>\<open>Readdirnames\<close> never yields these two),
  ReadDirAll returns one entry for each name that is not suppressed, in the
  order of \<open>names\<close>, then an entry named \<^verbatim>\<open>.\<close> and an entry named
  \<^verbatim>\<open>..\<close> as the last two; each of the two names occurs exactly once in
  the result.
\<close>

theorem ReadDirAll_entries_then_dots:
  assumes opn: "isOpen (d_handle d)"
    and rd: "Readdirnames b (h_file (d_handle d)) = (names, NilErr)"
    and nodot: "''.'' \<notin> set names"
    and nodotdot: "''..'' \<notin> set names"
  shows "\<exists>entries dot dotdot.
      fst (ReadDirAll b d) = (Some (entries @ [dot, dotdot]), None) \<and>
      entries = map (\<lambda>n. getFuseDirent b (Join [n_path (d_node d), n]) n)
                  (filter (\<lambda>n. \<not> skipDirEntry (b_goos b) n) names) \<and>
      map Name entries = filter (\<lambda>n. \<not> skipDirEntry (b_goos b) n) names \<and>
      Name dot = ''.'' \<and> Name dotdot = ''..'' \<and>
      count_list (map Name (entries @ [dot, dotdot])) ''.'' = 1 \<and>
      count_list (map Name (entries @ [dot, dotdot])) ''..'' = 1"
proof -
  let ?keep = "filter (\<lambda>n. \<not> skipDirEntry (b_goos b) n) names"
  let ?entries = "map (\<lambda>n. getFuseDirent b (Join [n_path (d_node d), n]) n) ?keep"
  let ?dot = "getFuseDirent b (n_path (d_node d)) ''.''"
  let ?dotdot = "if length (n_parent (d_node d)) > 0
                 then getFuseDirent b (n_parent (d_node d)) ''..''
                 else ?dot\<lparr>Name := ''..''\<rparr>"
  have res: "fst (ReadDirAll b d) = (Some (?entries @ [?dot, ?dotdot]), None)"
    using ReadDirAll_open_ok [OF opn rd] .
  have names: "map Name ?entries = ?keep"
    by (rule map_Name_getFuseDirent)
  have ndot: "Name ?dot = ''.''" and ndotdot: "Name ?dotdot = ''..''"
    by (simp_all add: getFuseDirent_def)
  have "''.'' \<notin> set ?keep" and "''..'' \<notin> set ?keep"
    using nodot nodotdot by simp_all
  then have c0: "count_list (map Name ?entries) ''.'' = 0"
    and c1: "count_list (map Name ?entries) ''..'' = 0"
    unfolding names by (simp_all add: count_list_0_iff)
  have cnt1: "count_list (map Name (?entries @ [?dot, ?dotdot])) ''.'' = 1"
    using c0 ndot ndotdot by simp
  have cnt2: "count_list (map Name (?entries @ [?dot, ?dotdot])) ''..'' = 1"
    using c1 ndot ndotdot by simp
  from res names ndot ndotdot cnt1 cnt2 show ?thesis by blast
qed

text \<open>Claim C5 at the open root directory on Darwin, whose enumeration yields
  \<^verbatim>\<open>a\<close>, \<^verbatim>\<open>._a\<close> and \<^verbatim>\<open>b\<close>: the entries are those of
  \<^verbatim>\<open>a\<close> and \<^verbatim>\<open>b\<close>, then the two dot entries.\<close>

theorem ReadDirAll_entries_then_dots_witness:
  "isOpen (d_handle open_root) \<and>
   Readdirnames (example_backing Darwin) (h_file (d_handle open_root)) = ([''a'', ''._a'', ''b''], NilErr) \<and>
   ''.'' \<notin> set [''a'', ''._a'', ''b''] \<and> ''..'' \<notin> set [''a'', ''._a'', ''b''] \<and>
   (\<exists>dot dotdot. fst (ReadDirAll (example_backing Darwin) open_root) =
      (Some ([\<lparr>Inode = 9, Name = ''a'', Type = 0\<rparr>, \<lparr>Inode = 9, Name = ''b'', Type = 0\<rparr>]
             @ [dot, dotdot]), None) \<and>
      Name dot = ''.'' \<and> Name dotdot = ''..'')"
proof -
  have h1: "isOpen (d_handle open_root)"
    by (simp add: example_handles isOpen_def)
  have h2: "Readdirnames (example_backing Darwin) (h_file (d_handle open_root)) =
      ([''a'', ''._a'', ''b''], NilErr)"
    by (simp add: example_handles example_backing_def)
  have h3: "''.'' \<notin> set [''a'', ''._a'', ''b'']" and h4: "''..'' \<notin> set [''a'', ''._a'', ''b'']"
    by simp_all
  have g: "b_goos (example_backing Darwin) = Darwin"
    and ds: "dirent_stat (example_backing Darwin) = (\<lambda>p. (length p, 0))"
    by (simp_all add: example_backing_def)
  from ReadDirAll_entries_then_dots [OF h1 h2 h3 h4] obtain entries dot dotdot where
    res: "fst (ReadDirAll (example_backing Darwin) open_root) = (Some (entries @ [dot, dotdot]), None)"
    and ent: "entries = map (\<lambda>n. getFuseDirent (example_backing Darwin) (Join [n_path (d_node open_root), n]) n)
                  (filter (\<lambda>n. \<not> skipDirEntry (b_goos (example_backing Darwin)) n) [''a'', ''._a'', ''b''])"
    and dots: "Name dot = ''.''" "Name dotdot = ''..''"
    by blast
  from ent have
    "entries = [\<lparr>Inode = 9, Name = ''a'', Type = 0\<rparr>, \<lparr>Inode = 9, Name = ''b'', Type = 0\<rparr>]"
    by (simp add: g ds HasPrefix_def getFuseDirent_def example_paths example_joins del: Join.simps)
  with res dots have "fst (ReadDirAll (example_backing Darwin) open_root) =
      (Some ([\<lparr>Inode = 9, Name = ''a'', Type = 0\<rparr>, \<lparr>Inode = 9, Name = ''b'', Type = 0\<rparr>]
             @ [dot, dotdot]), None) \<and>
      Name dot = ''.'' \<and> Name dotdot = ''..''"
    by simp
  then have ex: "\<exists>dot dotdot. fst (ReadDirAll (example_backing Darwin) open_root) =
      (Some ([\<lparr>Inode = 9, Name = ''a'', Type = 0\<rparr>, \<lparr>Inode = 9, Name = ''b'', Type = 0\<rparr>]
             @ [dot, dotdot]), None) \<and>
      Name dot = ''.'' \<and> Name dotdot = ''..''"
    by (intro exI)
  show ?thesis by (intro conjI h1 h2 h3 h4 ex)
qed

text \<open>Claim C5 as stated fails: it speaks of every call on an opened
  directory, but on the open root directory whose backing directory cannot be
  read, ReadDirAll returns \<^verbatim>\<open>EIO\<close> and no sequence, so no dot entry.\<close>

theorem ReadDirAll_failed_enumeration_returns_EIO:
  "isOpen (d_handle open_root) \<and>
   fst (ReadDirAll failing_backing open_root) = (None, Some EIO)"
  by (simp add: ReadDirAll_def isOpen_def example_handles failing_backing_def
      failing_readdirnames_def example_backing_def)

text \<open>
  Claim C6: for an open directory with an empty parent path whose enumeration
  succeeds, the last entry returned is the entry before it, which is the
  \<^verbatim>\<open>.\<close> entry built from the directory's own path, with only the name
  changed to \<^verbatim>\<open>..\<close>; so inode and kind of the two are equal.
\<close>

theorem ReadDirAll_root_dotdot_aliases_dot:
  assumes opn: "isOpen (d_handle d)"
    and rd: "snd (Readdirnames b (h_file (d_handle d))) = NilErr"
    and root: "n_parent (d_node d) = []"
  shows "\<exists>es. fst (ReadDirAll b d) = (Some es, None) \<and> 2 \<le> length es \<and>
      last (butlast es) = getFuseDirent b (n_path (d_node d)) ''.'' \<and>
      last es = (last (butlast es))\<lparr>Name := ''..''\<rparr> \<and>
      Inode (last es) = Inode (last (butlast es)) \<and>
      Type (last es) = Type (last (butlast es)) \<and>
      Name (last (butlast es)) = ''.'' \<and> Name (last es) = ''..''"
proof -
  obtain names where rd': "Readdirnames b (h_file (d_handle d)) = (names, NilErr)"
    using rd by (cases "Readdirnames b (h_file (d_handle d))") simp
  show ?thesis
    using ReadDirAll_open_ok [OF opn rd'] root
    by (simp add: butlast_append getFuseDirent_def)
qed

text \<open>Claim C6 at the open root directory \<^verbatim>\<open>/data/x\<close>: both dot entries
  carry the inode of that path.\<close>

theorem ReadDirAll_root_dotdot_aliases_dot_witness:
  "isOpen (d_handle open_root) \<and>
   snd (Readdirnames (example_backing Linux) (h_file (d_handle open_root))) = NilErr \<and>
   n_parent (d_node open_root) = [] \<and>
   (\<exists>es. fst (ReadDirAll (example_backing Linux) open_root) = (Some es, None) \<and>
      last (butlast es) = \<lparr>Inode = 7, Name = ''.'', Type = 0\<rparr> \<and>
      last es = \<lparr>Inode = 7, Name = ''..'', Type = 0\<rparr>)"
proof -
  have h1: "isOpen (d_handle open_root)"
    by (simp add: example_handles isOpen_def)
  have h2: "snd (Readdirnames (example_backing Linux) (h_file (d_handle open_root))) = NilErr"
    by (simp add: example_handles example_backing_def)
  have h3: "n_parent (d_node open_root) = []"
    by (rule example_paths)
  have ds: "dirent_stat (example_backing Linux) = (\<lambda>p. (length p, 0))"
    by (simp add: example_backing_def)
  from ReadDirAll_root_dotdot_aliases_dot [OF h1 h2 h3] obtain es where
    "fst (ReadDirAll (example_backing Linux) open_root) = (Some es, None)"
    "last (butlast es) = getFuseDirent (example_backing Linux) (n_path (d_node open_root)) ''.''"
    "last es = (last (butlast es))\<lparr>Name := ''..''\<rparr>"
    by blast
  then have "fst (ReadDirAll (example_backing Linux) open_root) = (Some es, None) \<and>
      last (butlast es) = \<lparr>Inode = 7, Name = ''.'', Type = 0\<rparr> \<and>
      last es = \<lparr>Inode = 7, Name = ''..'', Type = 0\<rparr>"
    by (simp add: getFuseDirent_def ds example_paths)
  then have ex: "\<exists>es. fst (ReadDirAll (example_backing Linux) open_root) = (Some es, None) \<and>
      last (butlast es) = \<lparr>Inode = 7, Name = ''.'', Type = 0\<rparr> \<and>
      last es = \<lparr>Inode = 7, Name = ''..'', Type = 0\<rparr>"
    by (intro exI)
  show ?thesis by (intro conjI h1 h2 h3 ex)
qed

text \<open>
  Claim C8: on a directory whose handle is not open, ReadDirAll returns
  \<^verbatim>\<open>ENOTSUP\<close> and causes no event at all, so the backing directory is not
  enumerated.
\<close>

theorem ReadDirAll_not_open:
  assumes "\<not> isOpen (d_handle d)"
  shows "ReadDirAll b d = ((None, Some (ENOTSUP (b_goos b))), []) \<and>
         backing_calls (snd (ReadDirAll b d)) = []"
  using assms by (simp add: ReadDirAll_def)

text \<open>Claim C8 at the freshly made root directory on Linux, where
  \<^verbatim>\<open>ENOTSUP\<close> is 95.\<close>

theorem ReadDirAll_not_open_witness:
  "\<not> isOpen (d_handle closed_root) \<and>
   ReadDirAll (example_backing Linux) closed_root = ((None, Some 95), []) \<and>
   backing_calls (snd (ReadDirAll (example_backing Linux) closed_root)) = []"
proof -
  have h: "\<not> isOpen (d_handle closed_root)"
    by (simp add: example_handles isOpen_def)
  from ReadDirAll_not_open [OF h, of "example_backing Linux"] h
  show ?thesis by (simp add: example_backing_def)
qed

subsection \<open>Release\<close>

text \<open>
  Claim C7: a Release on a handle that is not open returns nil, leaves the
  directory as it is and causes no event (no flush, no close, no trace record).
  A Release on an open handle that returns nil closes the descriptor once and
  leaves the handle closed, so that any further Release is such a no-op.
\<close>

theorem Release_closed_is_noop:
  "(\<not> isOpen (d_handle d) \<longrightarrow> Release b d req = ((None, d), [])) \<and>
   (isOpen (d_handle d0) \<longrightarrow> Release b d0 req0 = ((None, d1), ev) \<longrightarrow>
      \<not> isOpen (d_handle d1) \<and>
      length (filter is_doClose (backing_calls ev)) = 1 \<and>
      Release b d1 req1 = ((None, d1), []))"
  by (auto simp: Release_def Let_def doClose_def isOpen_def backing_calls_append
      split: prod.splits option.splits)

text \<open>Claim C7 at the closed root directory, and at the open root directory
  released with the flush flag and then released again.\<close>

theorem Release_closed_is_noop_witness:
  "\<not> isOpen (d_handle closed_root) \<and>
   Release (example_backing Linux) closed_root \<lparr>ReleaseFlags = 1\<rparr> = ((None, closed_root), []) \<and>
   isOpen (d_handle open_root) \<and>
   Release (example_backing Linux) open_root \<lparr>ReleaseFlags = 1\<rparr> =
     ((None, open_root\<lparr>d_handle := \<lparr>h_file = None, h_handleID = 1\<rparr>\<rparr>),
      [Call (Handle_doSync \<lparr>h_file = Some 3, h_handleID = 1\<rparr>),
       Call (Handle_doClose \<lparr>h_file = Some 3, h_handleID = 1\<rparr>),
       Trace (ReleaseOp \<lparr>ReleaseFlags = 1\<rparr> ''/data/x'')]) \<and>
   Release (example_backing Linux) (open_root\<lparr>d_handle := \<lparr>h_file = None, h_handleID = 1\<rparr>\<rparr>)
     \<lparr>ReleaseFlags = 0\<rparr> =
     ((None, open_root\<lparr>d_handle := \<lparr>h_file = None, h_handleID = 1\<rparr>\<rparr>), [])"
proof -
  have c: "\<not> isOpen (d_handle closed_root)" and o: "isOpen (d_handle open_root)"
    by (simp_all add: example_handles isOpen_def)
  have r: "Release (example_backing Linux) open_root \<lparr>ReleaseFlags = 1\<rparr> =
     ((None, open_root\<lparr>d_handle := \<lparr>h_file = None, h_handleID = 1\<rparr>\<rparr>),
      [Call (Handle_doSync \<lparr>h_file = Some 3, h_handleID = 1\<rparr>),
       Call (Handle_doClose \<lparr>h_file = Some 3, h_handleID = 1\<rparr>),
       Trace (ReleaseOp \<lparr>ReleaseFlags = 1\<rparr> ''/data/x'')])"
    by (simp add: Release_def isOpen_def example_handles example_paths doClose_def
        example_backing_def ReleaseFlush_def)
  from Release_closed_is_noop [of closed_root "example_backing Linux" "\<lparr>ReleaseFlags = 1\<rparr>"
      open_root "\<lparr>ReleaseFlags = 1\<rparr>" "open_root\<lparr>d_handle := \<lparr>h_file = None, h_handleID = 1\<rparr>\<rparr>"
      _ "\<lparr>ReleaseFlags = 0\<rparr>"] c o r
  show ?thesis by simp
qed

subsection \<open>Lookup\<close>

text \<open>
  Claim C9: the Lookup of a suppressed name returns \<^verbatim>\<open>ENOENT\<close>; a
  Lookup whose stat of the joined path fails, with whatever error number,
  returns \<^verbatim>\<open>ENOENT\<close>; every error Lookup returns is \<^verbatim>\<open>ENOENT\<close>; and
  no entry of a sequence that ReadDirAll returns has a suppressed name.
\<close>

theorem Lookup_only_ENOENT:
  "(skipDirEntry (b_goos b) (lookup_Name req1) \<longrightarrow>
      fst (Lookup b d req1) = (None, Some ENOENT, None)) \<and>
   (sys_Lstat b (Join [n_path (d_node d), lookup_Name req2]) = Inl e \<longrightarrow>
      fst (Lookup b d req2) = (None, Some ENOENT, None)) \<and>
   (fst (snd (fst (Lookup b d req3))) = Some e' \<longrightarrow> e' = ENOENT) \<and>
   (fst (ReadDirAll b d) = (Some es, err) \<longrightarrow> x \<in> set es \<longrightarrow>
      \<not> skipDirEntry (b_goos b) (Name x))"
proof (intro conjI impI)
  assume "skipDirEntry (b_goos b) (lookup_Name req1)"
  then show "fst (Lookup b d req1) = (None, Some ENOENT, None)"
    by (simp add: Lookup_def)
next
  assume "sys_Lstat b (Join [n_path (d_node d), lookup_Name req2]) = Inl e"
  then show "fst (Lookup b d req2) = (None, Some ENOENT, None)"
    by (simp add: Lookup_def Let_def)
next
  assume "fst (snd (fst (Lookup b d req3))) = Some e'"
  then show "e' = ENOENT"
    by (simp add: Lookup_def Let_def split: if_splits sum.splits)
next
  assume "fst (ReadDirAll b d) = (Some es, err)" and x: "x \<in> set es"
  from ReadDirAll_Some [OF this(1)] obtain names where
    es: "es = map (\<lambda>n. getFuseDirent b (Join [n_path (d_node d), n]) n)
              (filter (\<lambda>n. \<not> skipDirEntry (b_goos b) n) names)
            @ [getFuseDirent b (n_path (d_node d)) ''.'',
               if length (n_parent (d_node d)) > 0
               then getFuseDirent b (n_parent (d_node d)) ''..''
               else (getFuseDirent b (n_path (d_node d)) ''.'')\<lparr>Name := ''..''\<rparr>]"
    by blast
  from x show "\<not> skipDirEntry (b_goos b) (Name x)"
    unfolding es using skipDirEntry_dots [of "b_goos b"]
    by (auto simp: getFuseDirent_def split: if_splits)
qed

text \<open>Claim C9 at the open root directory on Darwin: the suppressed name
  \<^verbatim>\<open>._a\<close>, the missing name \<^verbatim>\<open>zz\<close>, and the enumeration, which lists
  \<^verbatim>\<open>a\<close> and \<^verbatim>\<open>b\<close> and not \<^verbatim>\<open>._a\<close>.\<close>

theorem Lookup_only_ENOENT_witness:
  "skipDirEntry (b_goos (example_backing Darwin)) (lookup_Name \<lparr>lookup_Name = ''._a''\<rparr>) \<and>
   fst (Lookup (example_backing Darwin) open_root \<lparr>lookup_Name = ''._a''\<rparr>) =
     (None, Some ENOENT, None) \<and>
   sys_Lstat (example_backing Darwin) (Join [n_path (d_node open_root), ''zz'']) = Inl ENOENT \<and>
   fst (Lookup (example_backing Darwin) open_root \<lparr>lookup_Name = ''zz''\<rparr>) =
     (None, Some ENOENT, None) \<and>
   fst (snd (fst (Lookup (example_backing Darwin) open_root \<lparr>lookup_Name = ''zz''\<rparr>))) = Some 2 \<and>
   fst (ReadDirAll (example_backing Darwin) open_root) =
     (Some [\<lparr>Inode = 9, Name = ''a'', Type = 0\<rparr>, \<lparr>Inode = 9, Name = ''b'', Type = 0\<rparr>,
            \<lparr>Inode = 7, Name = ''.'', Type = 0\<rparr>, \<lparr>Inode = 7, Name = ''..'', Type = 0\<rparr>], None) \<and>
   \<not> skipDirEntry (b_goos (example_backing Darwin)) (Name \<lparr>Inode = 9, Name = ''b'', Type = 0\<rparr>)"
proof -
  let ?B = "example_backing Darwin"
  let ?es = "[\<lparr>Inode = 9, Name = ''a'', Type = 0\<rparr>, \<lparr>Inode = 9, Name = ''b'', Type = 0\<rparr>,
            \<lparr>Inode = 7, Name = ''.'', Type = 0\<rparr>, \<lparr>Inode = 7, Name = ''..'', Type = 0\<rparr>]"
  have g: "b_goos ?B = Darwin"
    by (simp add: example_backing_def)
  have h1: "skipDirEntry (b_goos ?B) (lookup_Name \<lparr>lookup_Name = ''._a''\<rparr>)"
    by (simp add: g HasPrefix_def)
  have h2: "sys_Lstat ?B (Join [n_path (d_node open_root), lookup_Name \<lparr>lookup_Name = ''zz''\<rparr>]) = Inl ENOENT"
    by (simp add: example_backing_def example_Lstat_def example_paths example_joins del: Join.simps)
  have h3: "fst (snd (fst (Lookup ?B open_root \<lparr>lookup_Name = ''zz''\<rparr>))) = Some 2"
    using h2 by (simp add: Lookup_def g HasPrefix_def Let_def ENOENT_def del: Join.simps)
  have h4: "fst (ReadDirAll ?B open_root) = (Some ?es, None)"
    by (simp add: ReadDirAll_def Let_def isOpen_def example_handles example_paths example_joins
        example_backing_def getFuseDirent_def HasPrefix_def del: Join.simps)
  have h5: "\<lparr>Inode = 9, Name = ''b'', Type = 0\<rparr> \<in> set ?es"
    by simp
  from Lookup_only_ENOENT [of ?B "\<lparr>lookup_Name = ''._a''\<rparr>" open_root
      "\<lparr>lookup_Name = ''zz''\<rparr>" ENOENT "\<lparr>lookup_Name = ''zz''\<rparr>" 2 ?es None
      "\<lparr>Inode = 9, Name = ''b'', Type = 0\<rparr>"] h1 h2 h3 h4 h5
  show ?thesis by (simp del: Join.simps)
qed

end
